theory Spec2Isabelle
  imports Complex_Main
begin

section \<open>JavaScript numbers\<close>

text \<open>
  A JavaScript \<open>number\<close> is an IEEE-754 double. The model keeps the three special values
  and takes every finite value as an exact rational: rounding, overflow of finite results
  to \<open>Infinity\<close> and the sign of zero are not modelled (a division by zero takes the
  zero as \<open>+0\<close>). The arithmetic below is the \<open>+\<close>, \<open>-\<close>, \<open>*\<close>, \<open>/\<close> and \<open>%\<close>
  of the language on these values.
\<close>

datatype jsnum = NaN | NegInf | Fin rat | PosInf

fun js_neg :: "jsnum \<Rightarrow> jsnum" where
  "js_neg NaN = NaN"
| "js_neg NegInf = PosInf"
| "js_neg PosInf = NegInf"
| "js_neg (Fin a) = Fin (- a)"

fun js_add :: "jsnum \<Rightarrow> jsnum \<Rightarrow> jsnum" where
  "js_add (Fin a) (Fin b) = Fin (a + b)"
| "js_add NaN _ = NaN"
| "js_add _ NaN = NaN"
| "js_add PosInf NegInf = NaN"
| "js_add NegInf PosInf = NaN"
| "js_add PosInf _ = PosInf"
| "js_add _ PosInf = PosInf"
| "js_add NegInf _ = NegInf"
| "js_add _ NegInf = NegInf"

definition js_sub :: "jsnum \<Rightarrow> jsnum \<Rightarrow> jsnum" where
  "js_sub a b = js_add a (js_neg b)"

fun js_mul :: "jsnum \<Rightarrow> jsnum \<Rightarrow> jsnum" where
  "js_mul (Fin a) (Fin b) = Fin (a * b)"
| "js_mul NaN _ = NaN"
| "js_mul _ NaN = NaN"
| "js_mul PosInf (Fin b) = (if b = 0 then NaN else if b < 0 then NegInf else PosInf)"
| "js_mul NegInf (Fin b) = (if b = 0 then NaN else if b < 0 then PosInf else NegInf)"
| "js_mul (Fin a) PosInf = (if a = 0 then NaN else if a < 0 then NegInf else PosInf)"
| "js_mul (Fin a) NegInf = (if a = 0 then NaN else if a < 0 then PosInf else NegInf)"
| "js_mul PosInf PosInf = PosInf"
| "js_mul PosInf NegInf = NegInf"
| "js_mul NegInf PosInf = NegInf"
| "js_mul NegInf NegInf = PosInf"

fun js_div :: "jsnum \<Rightarrow> jsnum \<Rightarrow> jsnum" where
  "js_div (Fin a) (Fin b) =
     (if b = 0 then (if a = 0 then NaN else if a < 0 then NegInf else PosInf)
      else Fin (a / b))"
| "js_div NaN _ = NaN"
| "js_div _ NaN = NaN"
| "js_div (Fin a) PosInf = Fin 0"
| "js_div (Fin a) NegInf = Fin 0"
| "js_div PosInf (Fin b) = (if b < 0 then NegInf else PosInf)"
| "js_div NegInf (Fin b) = (if b < 0 then PosInf else NegInf)"
| "js_div PosInf PosInf = NaN"
| "js_div PosInf NegInf = NaN"
| "js_div NegInf PosInf = NaN"
| "js_div NegInf NegInf = NaN"

text \<open>\<open>Math.min\<close> and \<open>Math.max\<close> of two arguments: \<open>NaN\<close> when either is.\<close>

fun Math_min :: "jsnum \<Rightarrow> jsnum \<Rightarrow> jsnum" where
  "Math_min (Fin a) (Fin b) = Fin (min a b)"
| "Math_min NaN _ = NaN"
| "Math_min _ NaN = NaN"
| "Math_min NegInf _ = NegInf"
| "Math_min _ NegInf = NegInf"
| "Math_min PosInf b = b"
| "Math_min a PosInf = a"

fun Math_max :: "jsnum \<Rightarrow> jsnum \<Rightarrow> jsnum" where
  "Math_max (Fin a) (Fin b) = Fin (max a b)"
| "Math_max NaN _ = NaN"
| "Math_max _ NaN = NaN"
| "Math_max PosInf _ = PosInf"
| "Math_max _ PosInf = PosInf"
| "Math_max NegInf b = b"
| "Math_max a NegInf = a"

text \<open>A number is falsy when it is \<open>0\<close> or \<open>NaN\<close>; \<open>x || d\<close> on an optional number
  (\<open>None\<close> is \<open>undefined\<close>) is \<open>d\<close> when \<open>x\<close> is undefined or falsy.\<close>

definition js_truthy :: "jsnum \<Rightarrow> bool" where
  "js_truthy x = (x \<noteq> NaN \<and> x \<noteq> Fin 0)"

definition num_or :: "jsnum option \<Rightarrow> jsnum \<Rightarrow> jsnum" where
  "num_or x d = (case x of None \<Rightarrow> d | Some v \<Rightarrow> if js_truthy v then v else d)"


section \<open>Timeline (src/components/Timeline.tsx)\<close>

definition PIXELS_PER_SECOND_BASE :: jsnum where
  "PIXELS_PER_SECOND_BASE = Fin 50"

text \<open>The scrollable container behind \<open>timelineRef\<close>: its \<open>scrollLeft\<close> and the
  \<open>left\<close> of its bounding rectangle. \<open>timelineRef\<close> is \<open>None\<close> while the ref is null.
  The props \<open>duration\<close>, \<open>currentTime\<close>, \<open>zoomLevel\<close> and the three \<open>useState\<close> cells
  of the component are the other fields.\<close>

record timeline_el =
  scrollLeft :: jsnum
  rect_left :: jsnum

record timeline =
  duration :: jsnum
  currentTime :: jsnum
  zoomLevel :: jsnum
  isDragging :: bool
  dragStartX :: jsnum
  startScrollX :: jsnum
  timelineRef :: "timeline_el option"

definition totalWidth :: "timeline \<Rightarrow> jsnum" where
  "totalWidth s = js_mul (js_mul (duration s) PIXELS_PER_SECOND_BASE) (zoomLevel s)"

definition indicatorPosition :: "timeline \<Rightarrow> jsnum" where
  "indicatorPosition s = js_mul (js_div (currentTime s) (duration s)) (totalWidth s)"

text \<open>\<open>getElementStyle\<close>: the numbers behind \<open>left\<close> and \<open>width\<close> of an element that
  starts at \<open>start\<close> and ends at \<open>end\<close>.\<close>

definition getElementStyle_left :: "timeline \<Rightarrow> jsnum \<Rightarrow> jsnum" where
  "getElementStyle_left s start = js_mul (js_div start (duration s)) (totalWidth s)"

definition getElementStyle_width :: "timeline \<Rightarrow> jsnum \<Rightarrow> jsnum \<Rightarrow> jsnum" where
  "getElementStyle_width s start end =
     js_mul (js_div (js_sub end start) (duration s)) (totalWidth s)"

text \<open>\<open>handleMouseDown\<close>, \<open>handleMouseMove\<close> and \<open>handleMouseUp\<close>; the argument is
  \<open>e.clientX\<close>. The move handler writes the container's \<open>scrollLeft\<close>; what the browser
  then does with the written value is outside the source.\<close>

definition handleMouseDown :: "jsnum \<Rightarrow> timeline \<Rightarrow> timeline" where
  "handleMouseDown clientX s =
     s\<lparr>isDragging := True,
       dragStartX := clientX,
       startScrollX := num_or (map_option scrollLeft (timelineRef s)) (Fin 0)\<rparr>"

definition handleMouseMove :: "jsnum \<Rightarrow> timeline \<Rightarrow> timeline" where
  "handleMouseMove clientX s =
     (if \<not> isDragging s then s
      else let deltaX = js_sub clientX (dragStartX s) in
        (case timelineRef s of
           None \<Rightarrow> s
         | Some el \<Rightarrow>
             s\<lparr>timelineRef := Some (el\<lparr>scrollLeft := js_sub (startScrollX s) deltaX\<rparr>)\<rparr>))"

definition handleMouseUp :: "timeline \<Rightarrow> timeline" where
  "handleMouseUp s = s\<lparr>isDragging := False\<rparr>"

text \<open>\<open>handleTimelineClick\<close> either returns early or calls \<open>onScrub(newTime)\<close>; it has
  no other exit.\<close>

datatype click_result = Ignored | Scrub jsnum

definition handleTimelineClick :: "jsnum \<Rightarrow> timeline \<Rightarrow> click_result" where
  "handleTimelineClick clientX s =
     (case timelineRef s of
        None \<Rightarrow> Ignored
      | Some el \<Rightarrow>
          if isDragging s then Ignored
          else let clickX = js_add (js_sub clientX (rect_left el)) (scrollLeft el);
                   newTime = js_mul (js_div clickX (totalWidth s)) (duration s)
               in Scrub newTime)"

text \<open>The zoom controls. \<open>onZoomChange\<close> is the parent's \<open>setZoomLevel\<close>, and the
  \<open>zoomLevel\<close> prop is that state cell, so a call stores its argument. The slider hands
  \<open>handleZoomChange\<close> an array and the handler takes \<open>value[0]\<close>: on the empty array
  that is \<open>undefined\<close>, which is no number, and the result is \<open>None\<close>. The number
  field calls \<open>onZoomChange(parseFloat(e.target.value))\<close>; the argument of
  \<open>zoomInput_onChange\<close> is the number \<open>parseFloat\<close> returned.\<close>

definition onZoomChange :: "jsnum \<Rightarrow> timeline \<Rightarrow> timeline" where
  "onZoomChange zoom s = s\<lparr>zoomLevel := zoom\<rparr>"

definition zoomOut_onClick :: "timeline \<Rightarrow> timeline" where
  "zoomOut_onClick s = onZoomChange (Math_max (Fin (1/2)) (js_sub (zoomLevel s) (Fin (1/2)))) s"

definition zoomIn_onClick :: "timeline \<Rightarrow> timeline" where
  "zoomIn_onClick s = onZoomChange (Math_min (Fin 5) (js_add (zoomLevel s) (Fin (1/2)))) s"

definition handleZoomChange :: "jsnum list \<Rightarrow> timeline \<Rightarrow> timeline option" where
  "handleZoomChange value s = (case value of [] \<Rightarrow> None | v # _ \<Rightarrow> Some (onZoomChange v s))"

definition zoomInput_onChange :: "jsnum \<Rightarrow> timeline \<Rightarrow> timeline" where
  "zoomInput_onChange parsed s = onZoomChange parsed s"

text \<open>The interval the controls are labelled with (\<open>min\<close> 0.5, \<open>max\<close> 5).\<close>

definition zoom_in_range :: "jsnum \<Rightarrow> bool" where
  "zoom_in_range z = (case z of Fin q \<Rightarrow> 1/2 \<le> q \<and> q \<le> 5 | _ \<Rightarrow> False)"


section \<open>Playback (src/components/BlueprintTerminal.tsx)\<close>

record VideoData =
  video_id :: string
  video_title :: string
  video_duration :: jsnum
  video_url :: string
  video_thumbnail :: string

definition mockVideo :: VideoData where
  "mockVideo =
     \<lparr>video_id = ''1'',
      video_title = ''Product Demo - SaaS Platform'',
      video_duration = Fin 154,
      video_url = ''/api/placeholder/854/480'',
      video_thumbnail = ''/api/placeholder/854/480''\<rparr>"

text \<open>The video element behind \<open>videoRef\<close>, as far as the handlers write it:
  \<open>video_currentTime\<close> is the value last assigned to \<open>video.currentTime\<close>. The
  component's state cells \<open>isPlaying\<close> and \<open>currentTime\<close> are the other fields.\<close>

record video_el =
  video_currentTime :: jsnum

record terminal =
  isPlaying :: bool
  term_currentTime :: jsnum
  videoRef :: "video_el option"

definition seekTo :: "jsnum \<Rightarrow> terminal \<Rightarrow> terminal" where
  "seekTo time s =
     (case videoRef s of
        None \<Rightarrow> s
      | Some v \<Rightarrow> s\<lparr>videoRef := Some (v\<lparr>video_currentTime := time\<rparr>), term_currentTime := time\<rparr>)"

definition skipForward :: "terminal \<Rightarrow> terminal" where
  "skipForward s =
     (let newTime = Math_min (js_add (term_currentTime s) (Fin 10)) (video_duration mockVideo)
      in seekTo newTime s)"

definition skipBackward :: "terminal \<Rightarrow> terminal" where
  "skipBackward s =
     (let newTime = Math_max (js_sub (term_currentTime s) (Fin 10)) (Fin 0)
      in seekTo newTime s)"

definition handleTimelineScrub :: "jsnum \<Rightarrow> terminal \<Rightarrow> terminal" where
  "handleTimelineScrub time s = seekTo time s"

text \<open>The value of \<open>t\<close> clamped into \<open>[lo, hi]\<close>, to compare the handlers with.\<close>

definition clamp :: "rat \<Rightarrow> rat \<Rightarrow> rat \<Rightarrow> rat" where
  "clamp lo hi t = max lo (min hi t)"


section \<open>Dashboard statistics (src/components/Dashboard.tsx)\<close>

datatype status = completed | processing | failed

record Blueprint =
  bp_id :: string
  bp_title :: string
  bp_thumbnail :: string
  bp_duration :: string
  bp_status :: status
  clarityScore :: jsnum
  createdAt :: string

text \<open>\<open>Math.round\<close>: the nearest integer, a tie going up.\<close>

fun Math_round :: "jsnum \<Rightarrow> jsnum" where
  "Math_round (Fin a) = Fin (of_int \<lfloor>a + 1/2\<rfloor>)"
| "Math_round x = x"

text \<open>What \<open>useQuery\<close> hands the component: \<open>data\<close> (\<open>None\<close> is \<open>undefined\<close>),
  \<open>isLoading\<close> and \<open>error\<close>.\<close>

record query_result =
  q_data :: "Blueprint list option"
  q_isLoading :: bool
  q_error :: "string option"

definition validBlueprints :: "Blueprint list option \<Rightarrow> Blueprint list" where
  "validBlueprints blueprints = (case blueprints of None \<Rightarrow> [] | Some bs \<Rightarrow> bs)"

definition completedBlueprints :: "Blueprint list option \<Rightarrow> Blueprint list" where
  "completedBlueprints blueprints =
     filter (\<lambda>b. bp_status b = completed) (validBlueprints blueprints)"

definition averageClarityScore :: "Blueprint list option \<Rightarrow> jsnum" where
  "averageClarityScore blueprints =
     (let cs = completedBlueprints blueprints in
      if length cs > 0
      then Math_round (js_div (foldl (\<lambda>acc b. js_add acc (clarityScore b)) (Fin 0) cs)
                              (Fin (of_nat (length cs))))
      else Fin 0)"

text \<open>The values of the three stat cards, and the component with its two early
  returns.\<close>

record stat_cards =
  totalBlueprints :: nat
  avgClarityScore :: jsnum
  processingCount :: nat

datatype dashboard_view =
    LoadingView
  | ErrorView string
  | StatsView stat_cards "Blueprint list"

definition Dashboard :: "query_result \<Rightarrow> dashboard_view" where
  "Dashboard q =
     (if q_isLoading q then LoadingView
      else case q_error q of
        Some message \<Rightarrow> ErrorView message
      | None \<Rightarrow>
          StatsView
            \<lparr>totalBlueprints = length (validBlueprints (q_data q)),
             avgClarityScore = averageClarityScore (q_data q),
             processingCount =
               length (filter (\<lambda>b. bp_status b = processing) (validBlueprints (q_data q)))\<rparr>
            (validBlueprints (q_data q)))"

text \<open>The finite value of a score, to state the mean with.\<close>

fun fin_val :: "jsnum \<Rightarrow> rat" where
  "fin_val (Fin a) = a"
| "fin_val _ = 0"

fun is_fin :: "jsnum \<Rightarrow> bool" where
  "is_fin (Fin a) = True"
| "is_fin _ = False"


section \<open>Realtime relay (src/pages/api/websocket.ts)\<close>

datatype readyState = CONNECTING | OPEN | CLOSING | CLOSED






section \<open>Properties panel (src/components/PropertiesPanel.tsx)\<close>

text \<open>\<open>%\<close> is the remainder of the division truncated towards zero (the sign of the
  dividend), \<open>Math.floor\<close> the largest integer that is not above.\<close>

definition trunc :: "rat \<Rightarrow> int" where
  "trunc q = (if q < 0 then \<lceil>q\<rceil> else \<lfloor>q\<rfloor>)"

fun js_mod :: "jsnum \<Rightarrow> jsnum \<Rightarrow> jsnum" where
  "js_mod (Fin a) (Fin b) = (if b = 0 then NaN else Fin (a - of_int (trunc (a / b)) * b))"
| "js_mod NaN _ = NaN"
| "js_mod _ NaN = NaN"
| "js_mod PosInf _ = NaN"
| "js_mod NegInf _ = NaN"
| "js_mod (Fin a) PosInf = Fin a"
| "js_mod (Fin a) NegInf = Fin a"

fun Math_floor :: "jsnum \<Rightarrow> jsnum" where
  "Math_floor (Fin a) = Fin (of_int \<lfloor>a\<rfloor>)"
| "Math_floor x = x"

text \<open>The text of a number (\<open>toString\<close>, a template literal, a number rendered as a
  child). An integer of magnitude below \<open>2^53\<close> prints as its decimal digits. The text of
  any other finite number is the shortest decimal that reads back as the same double,
  which exact rationals do not determine: it is the parameter \<open>fmt\<close>.\<close>

definition digit_char :: "nat \<Rightarrow> char" where
  "digit_char n = ''0123456789'' ! n"

function nat_digits :: "nat \<Rightarrow> string" where
  "nat_digits n = (if n < 10 then [digit_char n] else nat_digits (n div 10) @ [digit_char (n mod 10)])"
  by pat_completeness auto
termination
  by (relation "measure (\<lambda>n. n)") auto

declare nat_digits.simps [simp del]

definition int_digits :: "int \<Rightarrow> string" where
  "int_digits i = (if i < 0 then CHR ''-'' # nat_digits (nat (- i)) else nat_digits (nat i))"

definition js_toString :: "(rat \<Rightarrow> string) \<Rightarrow> jsnum \<Rightarrow> string" where
  "js_toString fmt x =
     (case x of
        NaN \<Rightarrow> ''NaN''
      | PosInf \<Rightarrow> ''Infinity''
      | NegInf \<Rightarrow> ''-Infinity''
      | Fin q \<Rightarrow> if q = of_int \<lfloor>q\<rfloor> \<and> \<bar>q\<bar> < 2 ^ 53 then int_digits \<lfloor>q\<rfloor> else fmt q)"

definition padStart2 :: "string \<Rightarrow> string" where
  "padStart2 s = replicate (2 - length s) CHR ''0'' @ s"

definition formatTime :: "(rat \<Rightarrow> string) \<Rightarrow> jsnum \<Rightarrow> string" where
  "formatTime fmt seconds =
     (let mins = Math_floor (js_div seconds (Fin 60));
          secs = Math_floor (js_mod seconds (Fin 60))
      in js_toString fmt mins @ '':'' @ padStart2 (js_toString fmt secs))"

text \<open>\<open>SelectedElement\<close>; an optional field that is absent is \<open>None\<close>, and so is the
  \<open>null\<close> type. \<open>data\<close> is typed \<open>any\<close> in the source: the record has the fields the
  panel reads, with the types it uses them at (texts and numbers).\<close>

datatype element_type = narrative | visual | audio | clarity

record element_data =
  data_text :: "string option"
  data_score :: "jsnum option"
  data_scene :: "string option"
  data_description :: "string option"
  data_title :: "string option"
  data_volume :: "jsnum option"

record SelectedElement =
  sel_type :: "element_type option"
  sel_id :: "string option"
  timeStart :: "jsnum option"
  timeEnd :: "jsnum option"
  sel_data :: "element_data option"

text \<open>\<open>data?.field\<close>, \<open>x || 'N/A'\<close> on a text (the empty text is falsy) and on a
  number, and an optional text rendered as a child (\<open>undefined\<close> renders nothing).\<close>

definition data_field :: "(element_data \<Rightarrow> 'a option) \<Rightarrow> SelectedElement \<Rightarrow> 'a option" where
  "data_field f sel = (case sel_data sel of None \<Rightarrow> None | Some d \<Rightarrow> f d)"

definition str_or :: "string option \<Rightarrow> string \<Rightarrow> string" where
  "str_or x d = (case x of None \<Rightarrow> d | Some v \<Rightarrow> if v = [] then d else v)"

definition score_or :: "(rat \<Rightarrow> string) \<Rightarrow> jsnum option \<Rightarrow> string \<Rightarrow> string" where
  "score_or fmt x d = (case x of None \<Rightarrow> d | Some v \<Rightarrow> if js_truthy v then js_toString fmt v else d)"

definition child_text :: "string option \<Rightarrow> string" where
  "child_text x = (case x of None \<Rightarrow> [] | Some v \<Rightarrow> v)"

definition type_name :: "element_type \<Rightarrow> string" where
  "type_name t = (case t of narrative \<Rightarrow> ''narrative'' | visual \<Rightarrow> ''visual''
                          | audio \<Rightarrow> ''audio'' | clarity \<Rightarrow> ''clarity'')"

text \<open>The \<open>switch\<close>: the title and the labelled lines of the specific section.\<close>

definition displayTitle :: "element_type \<Rightarrow> string" where
  "displayTitle t = (case t of narrative \<Rightarrow> ''Narrative Beat'' | visual \<Rightarrow> ''Visual Event''
                             | audio \<Rightarrow> ''Audio Event'' | clarity \<Rightarrow> ''Clarity Insight'')"

definition elementSpecificData ::
  "(rat \<Rightarrow> string) \<Rightarrow> element_type \<Rightarrow> SelectedElement \<Rightarrow> (string \<times> string) list" where
  "elementSpecificData fmt t sel =
     (case t of
        narrative \<Rightarrow>
          [(''Text:'', child_text (data_field data_text sel)),
           (''Score:'', score_or fmt (data_field data_score sel) ''N/A'')]
      | visual \<Rightarrow>
          [(''Scene:'', child_text (data_field data_scene sel)),
           (''Description:'', str_or (data_field data_description sel) ''N/A'')]
      | audio \<Rightarrow>
          [(''Track:'', child_text (data_field data_title sel)),
           (''Volume:'',
              (case data_field data_volume sel of
                 None \<Rightarrow> ''N/A''
               | Some volume \<Rightarrow> js_toString fmt (js_mul volume (Fin 100)) @ ''%''))]
      | clarity \<Rightarrow>
          [(''Insight:'', child_text (data_field data_text sel)),
           (''Score:'', score_or fmt (data_field data_score sel) ''N/A'')])"

text \<open>What the component returns: the prompt, or the card with its title, the lines of
  the General section, the specific lines and the Context line.\<close>

record panel =
  panel_title :: string
  general_id :: string
  general_type :: string
  general_time :: string
  general_duration :: string
  specific_data :: "(string \<times> string) list"
  context_time :: string

datatype panel_view = Prompt string | Card panel

definition PropertiesPanel ::
  "(rat \<Rightarrow> string) \<Rightarrow> SelectedElement \<Rightarrow> jsnum \<Rightarrow> jsnum \<Rightarrow> panel_view" where
  "PropertiesPanel fmt selectedElement currentTime_prop duration_prop =
     (case sel_type selectedElement of
        None \<Rightarrow> Prompt ''Select an element on the timeline to view its properties.''
      | Some t \<Rightarrow>
          Card
            \<lparr>panel_title = displayTitle t,
             general_id = str_or (sel_id selectedElement) ''N/A'',
             general_type = type_name t,
             general_time =
               formatTime fmt (num_or (timeStart selectedElement) (Fin 0)) @ '' - '' @
               formatTime fmt (num_or (timeEnd selectedElement) (Fin 0)),
             general_duration =
               formatTime fmt (js_sub (num_or (timeEnd selectedElement) (Fin 0))
                                      (num_or (timeStart selectedElement) (Fin 0))),
             specific_data = elementSpecificData fmt t selectedElement,
             context_time = formatTime fmt currentTime_prop @ '' / '' @ formatTime fmt duration_prop\<rparr>)"


section \<open>Example states\<close>

text \<open>A timeline of 154 seconds at zoom 1, its container scrolled by 3000 pixels and
  placed 100 pixels from the left edge of the window; and the same timeline with duration
  0 and zoom 2.\<close>

definition timeline_154 :: timeline where
  "timeline_154 =
     \<lparr>duration = Fin 154, currentTime = Fin 0, zoomLevel = Fin 1, isDragging = False,
      dragStartX = Fin 0, startScrollX = Fin 0,
      timelineRef = Some \<lparr>scrollLeft = Fin 3000, rect_left = Fin 100\<rparr>\<rparr>"

definition timeline_zero :: timeline where
  "timeline_zero =
     \<lparr>duration = Fin 0, currentTime = Fin 0, zoomLevel = Fin 2, isDragging = False,
      dragStartX = Fin 0, startScrollX = Fin 0,
      timelineRef = Some \<lparr>scrollLeft = Fin 3000, rect_left = Fin 100\<rparr>\<rparr>"


text \<open>A record of the dashboard with a given status and a finite score.\<close>

definition blueprint_of :: "status \<Rightarrow> rat \<Rightarrow> Blueprint" where
  "blueprint_of st sc =
     \<lparr>bp_id = ''b'', bp_title = ''Product Demo'', bp_thumbnail = ''/thumb.png'',
      bp_duration = ''2:34'', bp_status = st, clarityScore = Fin sc,
      createdAt = ''2024-01-01''\<rparr>"

text \<open>The terminal as it is mounted, with the video element bound.\<close>

definition terminal_0 :: terminal where
  "terminal_0 =
     \<lparr>isPlaying = False, term_currentTime = Fin 0,
      videoRef = Some \<lparr>video_currentTime = Fin 0\<rparr>\<rparr>"


text \<open>Selections: the second narrative beat of the mock timeline, a selection whose start
  lies after its end, a narrative beat with score 0 and an audio event with volume 0. The
  examples print integers only, so the text of other numbers is left as a mark.\<close>

definition no_fmt :: "rat \<Rightarrow> string" where
  "no_fmt q = ''?''"

definition no_data :: element_data where
  "no_data =
     \<lparr>data_text = None, data_score = None, data_scene = None, data_description = None,
      data_title = None, data_volume = None\<rparr>"

definition sel_n2 :: SelectedElement where
  "sel_n2 =
     \<lparr>sel_type = Some narrative, sel_id = Some ''n2'', timeStart = Some (Fin 15),
      timeEnd = Some (Fin 30),
      sel_data = Some (no_data\<lparr>data_text := Some ''Key Features Overview''\<rparr>)\<rparr>"


definition sel_score_0 :: SelectedElement where
  "sel_score_0 = sel_n2\<lparr>sel_data := Some (no_data\<lparr>data_score := Some (Fin 0)\<rparr>)\<rparr>"

definition sel_volume_0 :: SelectedElement where
  "sel_volume_0 =
     \<lparr>sel_type = Some audio, sel_id = Some ''a1'', timeStart = Some (Fin 0),
      timeEnd = Some (Fin 15),
      sel_data = Some (no_data\<lparr>data_volume := Some (Fin 0)\<rparr>)\<rparr>"


section \<open>The time-to-pixel mapping\<close>

lemma totalWidth_Fin:
  "duration s = Fin d \<Longrightarrow> zoomLevel s = Fin z \<Longrightarrow> totalWidth s = Fin (d * 50 * z)"
  by (simp add: totalWidth_def PIXELS_PER_SECOND_BASE_def)

text \<open>For a finite duration other than 0 an element from \<open>a\<close> to \<open>b\<close> starts at pixel
  \<open>a * 50 * z\<close> and is \<open>(b - a) * 50 * z\<close> pixels wide.\<close>

lemma getElementStyle_Fin:
  assumes "duration s = Fin d" and "d \<noteq> 0" and "zoomLevel s = Fin z"
  shows "getElementStyle_left s (Fin a) = Fin (a * 50 * z)"
    and "getElementStyle_width s (Fin a) (Fin b) = Fin ((b - a) * 50 * z)"
  using assms
  by (simp_all add: getElementStyle_left_def getElementStyle_width_def js_sub_def
      totalWidth_Fin [OF assms(1,3)])

text \<open>
  C1. For a finite duration \<open>d > 0\<close>, a finite zoom \<open>z > 0\<close> and a time \<open>t\<close> in
  \<open>[0, d]\<close>, the pixel offset \<open>(t / duration) * totalWidth\<close> is \<open>t * 50 * z\<close>, and a click
  whose offset in the content (\<open>clientX - rect.left + scrollLeft\<close>) is that pixel calls
  \<open>onScrub\<close> with \<open>(clickX / totalWidth) * duration = t\<close>: the round trip is exact over
  the rationals.
\<close>

theorem click_inverts_position:
  assumes "duration s = Fin d" and "0 < d" and "zoomLevel s = Fin z" and "0 < z"
    and "0 \<le> t" and "t \<le> d"
    and "timelineRef s = Some el" and "\<not> isDragging s"
    and "js_add (js_sub clientX (rect_left el)) (scrollLeft el) = getElementStyle_left s (Fin t)"
  shows "getElementStyle_left s (Fin t) = Fin (t * 50 * z)
       \<and> handleTimelineClick clientX s = Scrub (Fin t)"
proof -
  have w: "totalWidth s = Fin (d * 50 * z)"
    using assms(1,3) by (rule totalWidth_Fin)
  have px: "getElementStyle_left s (Fin t) = Fin (t * 50 * z)"
    using assms(1,2) by (simp add: getElementStyle_left_def w)
  have "d * 50 * z \<noteq> 0"
    using assms(2,4) by simp
  then have "js_mul (js_div (Fin (t * 50 * z)) (totalWidth s)) (duration s) = Fin t"
    using assms(1,2,4) by (simp add: w)
  then show ?thesis
    using assms(7,8,9) px by (simp add: handleTimelineClick_def)
qed

text \<open>At duration 154 and zoom 1 the width is 7700, second 77 sits at pixel 3850, and a
  click there (950 - 100 + 3000) seeks to 77.\<close>

theorem click_inverts_position_witness:
  "totalWidth timeline_154 = Fin 7700
   \<and> getElementStyle_left timeline_154 (Fin 77) = Fin 3850
   \<and> handleTimelineClick (Fin 950) timeline_154 = Scrub (Fin 77)"
  using click_inverts_position [of timeline_154 154 1 77
      "\<lparr>scrollLeft = Fin 3000, rect_left = Fin 100\<rparr>" "Fin 950"]
  by (simp add: timeline_154_def getElementStyle_left_def totalWidth_def
      PIXELS_PER_SECOND_BASE_def js_sub_def)

lemma js_div_zero_width_mul_zero: "js_mul (js_div x (js_mul (Fin 0) z)) (Fin 0) = NaN"
  by (cases x; cases z) auto

lemma js_div_zero_mul_zero_width: "js_mul (js_div x (Fin 0)) (js_mul (Fin 0) z) = NaN"
  by (cases x; cases z) auto

text \<open>
  C2, as the code has it. With duration 0 nothing is rejected and no error is signalled:
  on a bound timeline that is not being dragged, every click calls \<open>onScrub\<close> with
  \<open>NaN\<close>, whatever the click position and the zoom, and the indicator position and the
  \<open>left\<close> of every element are \<open>NaN\<close> as well.
\<close>

theorem zero_duration_not_rejected:
  assumes "duration s = Fin 0" and "timelineRef s = Some el" and "\<not> isDragging s"
  shows "handleTimelineClick clientX s = Scrub NaN
       \<and> indicatorPosition s = NaN
       \<and> getElementStyle_left s start = NaN"
  using assms
  by (simp add: handleTimelineClick_def indicatorPosition_def getElementStyle_left_def
      totalWidth_def PIXELS_PER_SECOND_BASE_def js_div_zero_width_mul_zero
      js_div_zero_mul_zero_width)

theorem zero_duration_not_rejected_witness:
  "handleTimelineClick (Fin 120) timeline_zero = Scrub NaN
   \<and> indicatorPosition timeline_zero = NaN
   \<and> getElementStyle_left timeline_zero (Fin 5) = NaN"
  using zero_duration_not_rejected [of timeline_zero
      "\<lparr>scrollLeft = Fin 3000, rect_left = Fin 100\<rparr>" "Fin 120" "Fin 5"]
  by (simp add: timeline_zero_def)

text \<open>The claim as stated fails: a click at pixel 3850 of a timeline of duration 0 is
  not rejected, it scrubs to \<open>NaN\<close>.\<close>

theorem zero_duration_counterexample:
  "handleTimelineClick (Fin 3850)
     \<lparr>duration = Fin 0, currentTime = Fin 0, zoomLevel = Fin 1, isDragging = False,
      dragStartX = Fin 0, startScrollX = Fin 0,
      timelineRef = Some \<lparr>scrollLeft = Fin 0, rect_left = Fin 0\<rparr>\<rparr> = Scrub NaN"
  by (simp add: handleTimelineClick_def totalWidth_def PIXELS_PER_SECOND_BASE_def js_sub_def)


section \<open>Dashboard statistics\<close>

lemma foldl_js_add_Fin:
  "\<forall>b \<in> set cs. is_fin (clarityScore b) \<Longrightarrow>
   foldl (\<lambda>acc b. js_add acc (clarityScore b)) (Fin a) cs
     = Fin (a + sum_list (map (\<lambda>b. fin_val (clarityScore b)) cs))"
proof (induction cs arbitrary: a)
  case Nil
  then show ?case by simp
next
  case (Cons c cs)
  from Cons.prems obtain x where x: "clarityScore c = Fin x"
    by (cases "clarityScore c") auto
  from Cons.prems have "\<forall>b \<in> set cs. is_fin (clarityScore b)" by simp
  then show ?case
    by (simp add: Cons.IH x add.assoc)
qed

lemma averageClarityScore_Fin:
  assumes "\<forall>b \<in> set bs. bp_status b = completed \<longrightarrow> is_fin (clarityScore b)"
  shows "averageClarityScore (Some bs) =
     (let cs = filter (\<lambda>b. bp_status b = completed) bs in
      if cs = [] then Fin 0
      else Fin (of_int \<lfloor>sum_list (map (\<lambda>b. fin_val (clarityScore b)) cs)
                          / of_nat (length cs) + 1/2\<rfloor>))"
proof -
  let ?cs = "filter (\<lambda>b. bp_status b = completed) bs"
  have fin: "\<forall>b \<in> set ?cs. is_fin (clarityScore b)"
    using assms by simp
  show ?thesis
  proof (cases "?cs = []")
    case True
    then show ?thesis
      by (simp add: averageClarityScore_def completedBlueprints_def validBlueprints_def)
  next
    case False
    then have "of_nat (length ?cs) \<noteq> (0::rat)" by simp
    with False show ?thesis
      by (simp add: averageClarityScore_def completedBlueprints_def validBlueprints_def
          foldl_js_add_Fin [OF fin] Let_def)
  qed
qed

text \<open>
  C3. On a fetched list whose completed records have finite scores, the dashboard shows
  the number of records, the number of processing records and, as average clarity, the
  mean score of the completed records rounded to the nearest integer (a tie going up),
  or 0 when no record is completed. Without data (and so on the empty list) all three are
  0, and a record that is not completed leaves the average as it is.
\<close>

theorem dashboard_statistics:
  assumes "\<forall>b \<in> set bs. bp_status b = completed \<longrightarrow> is_fin (clarityScore b)"
  shows "Dashboard \<lparr>q_data = Some bs, q_isLoading = False, q_error = None\<rparr> =
           StatsView
             \<lparr>totalBlueprints = length bs,
              avgClarityScore =
                (let cs = filter (\<lambda>b. bp_status b = completed) bs in
                 if cs = [] then Fin 0
                 else Fin (of_int \<lfloor>sum_list (map (\<lambda>b. fin_val (clarityScore b)) cs)
                                     / of_nat (length cs) + 1/2\<rfloor>)),
              processingCount = length (filter (\<lambda>b. bp_status b = processing) bs)\<rparr>
             bs
       \<and> Dashboard \<lparr>q_data = None, q_isLoading = False, q_error = None\<rparr> =
           StatsView \<lparr>totalBlueprints = 0, avgClarityScore = Fin 0, processingCount = 0\<rparr> []
       \<and> (\<forall>b. bp_status b \<noteq> completed \<longrightarrow>
             averageClarityScore (Some (b # bs)) = averageClarityScore (Some bs))"
proof -
  have none: "averageClarityScore None = Fin 0"
    by (simp add: averageClarityScore_def completedBlueprints_def validBlueprints_def)
  have skip: "\<forall>b. bp_status b \<noteq> completed \<longrightarrow>
             averageClarityScore (Some (b # bs)) = averageClarityScore (Some bs)"
    by (simp add: averageClarityScore_def completedBlueprints_def validBlueprints_def)
  show ?thesis
    using skip
    by (simp add: Dashboard_def averageClarityScore_Fin [OF assms] none validBlueprints_def)
qed

text \<open>Scores 80 and 60 average to 70, with or without a processing record between
  them; the empty list gives 0.\<close>

theorem dashboard_statistics_witness:
  "Dashboard
     \<lparr>q_data = Some [blueprint_of completed 80, blueprint_of processing 10,
                     blueprint_of completed 60],
      q_isLoading = False, q_error = None\<rparr> =
     StatsView \<lparr>totalBlueprints = 3, avgClarityScore = Fin 70, processingCount = 1\<rparr>
       [blueprint_of completed 80, blueprint_of processing 10, blueprint_of completed 60]
   \<and> Dashboard \<lparr>q_data = Some [], q_isLoading = False, q_error = None\<rparr> =
     StatsView \<lparr>totalBlueprints = 0, avgClarityScore = Fin 0, processingCount = 0\<rparr> []
   \<and> averageClarityScore (Some [blueprint_of completed 80, blueprint_of completed 60]) = Fin 70"
proof -
  have fl: "\<lfloor>141 / 2 :: rat\<rfloor> = 70"
    by (simp add: floor_eq_iff)
  show ?thesis
    using dashboard_statistics
        [of "[blueprint_of completed 80, blueprint_of processing 10, blueprint_of completed 60]"]
      dashboard_statistics [of "[]"]
    by (simp add: blueprint_of_def averageClarityScore_def completedBlueprints_def
        validBlueprints_def fl)
qed


section \<open>Zoom controls\<close>

text \<open>The two buttons clamp on the side they move towards, so from a zoom level inside
  \<open>[0.5, 5]\<close> they stay inside; the slider and the number field store what they are
  given.\<close>

lemma zoom_buttons_stay_in_range:
  assumes "zoom_in_range (zoomLevel s)"
  shows "zoom_in_range (zoomLevel (zoomOut_onClick s))"
    and "zoom_in_range (zoomLevel (zoomIn_onClick s))"
  using assms
  by (auto simp: zoom_in_range_def zoomOut_onClick_def zoomIn_onClick_def onZoomChange_def
      js_sub_def min_def max_def split: jsnum.splits)

lemma zoom_slider_and_input_store_argument:
  "map_option zoomLevel (handleZoomChange (v # vs) s) = Some v"
  "zoomLevel (zoomInput_onChange v s) = v"
  by (simp_all add: handleZoomChange_def zoomInput_onChange_def onZoomChange_def)

text \<open>
  C4 at the number field. The timeline is at zoom 1, inside \<open>[0.5, 5]\<close>; the user types
  7, \<open>parseFloat\<close> returns 7 and the zoom level becomes 7, outside the interval, and a
  click on the zoom-out button after that leaves it at 6.5. An emptied field parses to
  \<open>NaN\<close>, which becomes the zoom level the same way.
\<close>

theorem zoom_input_not_clamped:
  "zoom_in_range (zoomLevel timeline_154)
   \<and> zoomLevel (zoomInput_onChange (Fin 7) timeline_154) = Fin 7
   \<and> \<not> zoom_in_range (zoomLevel (zoomInput_onChange (Fin 7) timeline_154))
   \<and> zoomLevel (zoomOut_onClick (zoomInput_onChange (Fin 7) timeline_154)) = Fin (13/2)
   \<and> \<not> zoom_in_range (zoomLevel (zoomInput_onChange NaN timeline_154))"
  by (simp add: zoomInput_onChange_def zoomOut_onClick_def onZoomChange_def zoom_in_range_def
      timeline_154_def js_sub_def)


section \<open>Playback\<close>

text \<open>The timeline's scrub callback hands its argument to \<open>seekTo\<close> as it is.\<close>

lemma handleTimelineScrub_is_seekTo: "handleTimelineScrub t s = seekTo t s"
  by (simp add: handleTimelineScrub_def)

text \<open>
  C5, as the code has it. \<open>seekTo\<close> does not clamp. With no video element bound it
  changes nothing; with one bound it assigns its argument to the element's position and
  to the \<open>currentTime\<close> state in the same call, and leaves \<open>isPlaying\<close> alone. For a
  duration \<open>d \<ge> 0\<close> the stored time is the clamped one exactly when the argument already
  lies in \<open>[0, d]\<close>.
\<close>

theorem seekTo_stores_argument:
  "(videoRef s = None \<longrightarrow> seekTo t s = s)
   \<and> (videoRef s \<noteq> None \<longrightarrow>
        term_currentTime (seekTo t s) = t
        \<and> map_option video_currentTime (videoRef (seekTo t s)) = Some t
        \<and> isPlaying (seekTo t s) = isPlaying s)
   \<and> (videoRef s \<noteq> None \<and> 0 \<le> d \<longrightarrow>
        (term_currentTime (seekTo (Fin x) s) = Fin (clamp 0 d x)) = (0 \<le> x \<and> x \<le> d))"
  by (auto simp: seekTo_def clamp_def split: option.splits)

theorem seekTo_stores_argument_witness:
  "seekTo (Fin 77) (terminal_0\<lparr>videoRef := None\<rparr>) = terminal_0\<lparr>videoRef := None\<rparr>
   \<and> term_currentTime (seekTo (Fin 77) terminal_0) = Fin 77
   \<and> map_option video_currentTime (videoRef (seekTo (Fin 77) terminal_0)) = Some (Fin 77)
   \<and> term_currentTime (seekTo (Fin 77) terminal_0) = Fin (clamp 0 154 77)
   \<and> term_currentTime (seekTo (Fin 200) terminal_0) \<noteq> Fin (clamp 0 154 200)"
  using seekTo_stores_argument [of "terminal_0\<lparr>videoRef := None\<rparr>" "Fin 77" 154 77]
    seekTo_stores_argument [of terminal_0 "Fin 77" 154 77]
    seekTo_stores_argument [of terminal_0 "Fin 200" 154 200]
  by (simp add: terminal_0_def clamp_def)

text \<open>The claim as stated fails: the video lasts 154 seconds, and \<open>seekTo 200\<close> leaves
  the current time at 200, not at 154.\<close>

theorem seekTo_counterexample:
  "video_duration mockVideo = Fin 154
   \<and> term_currentTime
        (seekTo (Fin 200)
           \<lparr>isPlaying = False, term_currentTime = Fin 0,
            videoRef = Some \<lparr>video_currentTime = Fin 0\<rparr>\<rparr>) = Fin 200
   \<and> term_currentTime
        (seekTo (Fin 200)
           \<lparr>isPlaying = False, term_currentTime = Fin 0,
            videoRef = Some \<lparr>video_currentTime = Fin 0\<rparr>\<rparr>) \<noteq> Fin (clamp 0 154 200)"
  by (simp add: seekTo_def mockVideo_def clamp_def)

text \<open>
  C6. With the video element bound and the current time \<open>c\<close> in \<open>[0, d]\<close>, \<open>d\<close> the
  duration of the video, the skip buttons move the state and the element to \<open>c + 10\<close>
  and to \<open>c - 10\<close> clamped into \<open>[0, d]\<close>. The component has these two skips only.
\<close>

theorem skip_clamps:
  assumes "videoRef s = Some v" and "term_currentTime s = Fin c" and "0 \<le> c" and "c \<le> d"
    and "video_duration mockVideo = Fin d"
  shows "term_currentTime (skipForward s) = Fin (clamp 0 d (c + 10))
       \<and> map_option video_currentTime (videoRef (skipForward s)) = Some (Fin (clamp 0 d (c + 10)))
       \<and> term_currentTime (skipBackward s) = Fin (clamp 0 d (c - 10))
       \<and> map_option video_currentTime (videoRef (skipBackward s)) = Some (Fin (clamp 0 d (c - 10)))"
proof -
  have f: "Math_min (js_add (term_currentTime s) (Fin 10)) (video_duration mockVideo)
             = Fin (clamp 0 d (c + 10))"
    using assms(2-5) by (simp add: clamp_def min_def max_def)
  have b: "Math_max (js_sub (term_currentTime s) (Fin 10)) (Fin 0) = Fin (clamp 0 d (c - 10))"
    using assms(2-5) by (simp add: clamp_def js_sub_def min_def max_def)
  show ?thesis
    using assms(1) by (simp add: skipForward_def skipBackward_def seekTo_def f b Let_def)
qed

text \<open>From 150 a skip forward stops at 154, from 4 a skip backward stops at 0, and a
  skip backward from 150 gives 140.\<close>

theorem skip_clamps_witness:
  "term_currentTime (skipForward (terminal_0\<lparr>term_currentTime := Fin 150\<rparr>)) = Fin 154
   \<and> term_currentTime (skipBackward (terminal_0\<lparr>term_currentTime := Fin 4\<rparr>)) = Fin 0
   \<and> term_currentTime (skipBackward (terminal_0\<lparr>term_currentTime := Fin 150\<rparr>)) = Fin 140"
  using skip_clamps [of "terminal_0\<lparr>term_currentTime := Fin 150\<rparr>"
      "\<lparr>video_currentTime = Fin 0\<rparr>" 150 154]
    skip_clamps [of "terminal_0\<lparr>term_currentTime := Fin 4\<rparr>"
      "\<lparr>video_currentTime = Fin 0\<rparr>" 4 154]
  by (simp add: terminal_0_def mockVideo_def clamp_def)


section \<open>Drag scrolling\<close>

lemma handleMouseMove_keeps_drag:
  "isDragging (handleMouseMove x s) = isDragging s
   \<and> dragStartX (handleMouseMove x s) = dragStartX s
   \<and> startScrollX (handleMouseMove x s) = startScrollX s
   \<and> (timelineRef (handleMouseMove x s) = None) = (timelineRef s = None)"
  by (simp add: handleMouseMove_def Let_def split: option.splits)

lemma moves_keep_drag:
  "isDragging (foldl (\<lambda>s x. handleMouseMove x s) s xs) = isDragging s
   \<and> dragStartX (foldl (\<lambda>s x. handleMouseMove x s) s xs) = dragStartX s
   \<and> startScrollX (foldl (\<lambda>s x. handleMouseMove x s) s xs) = startScrollX s
   \<and> (timelineRef (foldl (\<lambda>s x. handleMouseMove x s) s xs) = None) = (timelineRef s = None)"
  by (induction xs arbitrary: s) (simp_all add: handleMouseMove_keeps_drag)

lemma handleMouseMove_scrollLeft:
  assumes "isDragging s" and "timelineRef s \<noteq> None"
  shows "map_option scrollLeft (timelineRef (handleMouseMove x s))
           = Some (js_sub (startScrollX s) (js_sub x (dragStartX s)))"
  using assms by (auto simp: handleMouseMove_def Let_def)

text \<open>Once the button is released the moves write nothing.\<close>

lemma handleMouseMove_after_handleMouseUp:
  "handleMouseMove x (handleMouseUp s) = handleMouseUp s"
  by (simp add: handleMouseMove_def handleMouseUp_def)

text \<open>
  C7. On a bound timeline that is being dragged, after any run of pointer moves the
  scroll offset written is the offset recorded at the start of the drag minus the distance
  of the last pointer position from the start position. So a drag that starts at pointer
  \<open>x0\<close> with the container scrolled by \<open>a\<close> leaves it, at pointer \<open>x1\<close>, scrolled by
  \<open>a - (x1 - x0)\<close>.
\<close>

theorem drag_sets_scroll_offset:
  assumes "timelineRef s = Some el"
  shows "(isDragging s \<longrightarrow>
            map_option scrollLeft (timelineRef (foldl (\<lambda>s x. handleMouseMove x s) s (xs @ [x])))
              = Some (js_sub (startScrollX s) (js_sub x (dragStartX s))))
       \<and> (scrollLeft el = Fin a \<longrightarrow>
            map_option scrollLeft
              (timelineRef (foldl (\<lambda>s x. handleMouseMove x s) (handleMouseDown (Fin x0) s)
                 (xs @ [Fin x1])))
              = Some (Fin (a - (x1 - x0))))"
proof -
  have general:
    "map_option scrollLeft (timelineRef (foldl (\<lambda>s x. handleMouseMove x s) r (ys @ [y])))
       = Some (js_sub (startScrollX r) (js_sub y (dragStartX r)))"
    if "isDragging r" and "timelineRef r \<noteq> None" for r ys y
  proof -
    let ?m = "foldl (\<lambda>s x. handleMouseMove x s) r ys"
    have "isDragging ?m" and "timelineRef ?m \<noteq> None"
      and "startScrollX ?m = startScrollX r" and "dragStartX ?m = dragStartX r"
      using that by (simp_all add: moves_keep_drag)
    then show ?thesis
      using handleMouseMove_scrollLeft [of ?m y] by simp
  qed
  have down: "isDragging (handleMouseDown (Fin x0) s)"
    "timelineRef (handleMouseDown (Fin x0) s) \<noteq> None"
    "dragStartX (handleMouseDown (Fin x0) s) = Fin x0"
    using assms by (simp_all add: handleMouseDown_def)
  have first: "isDragging s \<longrightarrow>
      map_option scrollLeft (timelineRef (foldl (\<lambda>s x. handleMouseMove x s) s (xs @ [x])))
        = Some (js_sub (startScrollX s) (js_sub x (dragStartX s)))"
    using general [of s xs x] assms by simp
  have second: "map_option scrollLeft
      (timelineRef (foldl (\<lambda>s x. handleMouseMove x s) (handleMouseDown (Fin x0) s)
         (xs @ [Fin x1])))
        = Some (Fin (a - (x1 - x0)))" if "scrollLeft el = Fin a"
  proof -
    have "startScrollX (handleMouseDown (Fin x0) s) = Fin a"
      using assms that by (simp add: handleMouseDown_def num_or_def js_truthy_def)
    then show ?thesis
      using general [OF down(1,2), of xs "Fin x1"]
      by (simp add: down(3) js_sub_def algebra_simps)
  qed
  show ?thesis
    using first second by blast
qed

text \<open>The container is scrolled by 100 and the pointer goes down at 400: at 370
  (30 to the left) the offset is 130, and at 450 after that it is 50.\<close>

theorem drag_sets_scroll_offset_witness:
  "map_option scrollLeft
     (timelineRef (handleMouseMove (Fin 370)
        (handleMouseDown (Fin 400)
           (timeline_154\<lparr>timelineRef := Some \<lparr>scrollLeft = Fin 100, rect_left = Fin 0\<rparr>\<rparr>))))
     = Some (Fin 130)
   \<and> map_option scrollLeft
     (timelineRef (handleMouseMove (Fin 450) (handleMouseMove (Fin 370)
        (handleMouseDown (Fin 400)
           (timeline_154\<lparr>timelineRef := Some \<lparr>scrollLeft = Fin 100, rect_left = Fin 0\<rparr>\<rparr>)))))
     = Some (Fin 50)"
  using drag_sets_scroll_offset
      [of "timeline_154\<lparr>timelineRef := Some \<lparr>scrollLeft = Fin 100, rect_left = Fin 0\<rparr>\<rparr>"
        "\<lparr>scrollLeft = Fin 100, rect_left = Fin 0\<rparr>" "[]" "Fin 370" 100 400 370]
    drag_sets_scroll_offset
      [of "timeline_154\<lparr>timelineRef := Some \<lparr>scrollLeft = Fin 100, rect_left = Fin 0\<rparr>\<rparr>"
        "\<lparr>scrollLeft = Fin 100, rect_left = Fin 0\<rparr>" "[Fin 370]" "Fin 450" 100 400 450]
  by (simp add: timeline_154_def)


section \<open>Realtime relay\<close>




section \<open>Properties panel\<close>

text \<open>Whole seconds below \<open>2^53\<close> print as minutes, a colon and the seconds on two
  digits.\<close>

lemma js_toString_of_nat:
  "m < 2 ^ 53 \<Longrightarrow> js_toString fmt (Fin (of_nat m)) = nat_digits m"
proof -
  assume m: "m < 2 ^ 53"
  have "(of_nat m :: rat) < of_nat (2 ^ 53)"
    using m by (simp only: of_nat_less_iff)
  then have "\<bar>of_nat m :: rat\<bar> < 2 ^ 53" by simp
  then show ?thesis
    by (simp add: js_toString_def int_digits_def)
qed

lemma formatTime_of_nat:
  assumes "n < 2 ^ 53"
  shows "formatTime fmt (Fin (of_nat n))
           = nat_digits (n div 60) @ '':'' @ padStart2 (nat_digits (n mod 60))"
proof -
  have fl: "\<lfloor>(of_nat n :: rat) / 60\<rfloor> = int (n div 60)"
    using floor_divide_of_nat_eq [of n 60, where ?'a = rat] by simp
  have mins: "Math_floor (js_div (Fin (of_nat n)) (Fin 60)) = Fin (of_nat (n div 60))"
    by (simp add: fl)
  have "(of_nat n :: rat) - of_int (int (n div 60)) * 60 = of_nat (n mod 60)"
  proof -
    have "(of_nat n :: rat) = of_nat (n div 60 * 60 + n mod 60)"
      by simp
    also have "\<dots> = of_nat (n div 60) * 60 + of_nat (n mod 60)"
      by (simp only: of_nat_add of_nat_mult of_nat_numeral)
    finally show ?thesis
      by simp
  qed
  then have secs: "Math_floor (js_mod (Fin (of_nat n)) (Fin 60)) = Fin (of_nat (n mod 60))"
    by (simp add: trunc_def fl)
  have "n div 60 < 2 ^ 53" and "n mod 60 < 2 ^ 53"
    using assms by (auto intro: le_less_trans [OF div_le_dividend] le_less_trans [OF mod_less_eq_dividend])
  then show ?thesis
    unfolding formatTime_def mins secs Let_def
    by (simp only: js_toString_of_nat)
qed



text \<open>
  C10. A narrative or clarity selection whose score is 0 shows \<open>N/A\<close> as its score and
  renders exactly as the same selection without a score; an audio selection whose volume
  is 0 shows \<open>0%\<close>, where the same selection without a volume shows \<open>N/A\<close>.
\<close>

theorem zero_score_and_zero_volume:
  assumes "sel_data sel = Some d"
  shows "((sel_type sel = Some narrative \<or> sel_type sel = Some clarity) \<and> data_score d = Some (Fin 0) \<longrightarrow>
           (\<exists>p. PropertiesPanel fmt sel ct dur = Card p
              \<and> map_of (specific_data p) ''Score:'' = Some ''N/A'')
           \<and> PropertiesPanel fmt (sel\<lparr>sel_data := Some (d\<lparr>data_score := None\<rparr>)\<rparr>) ct dur
               = PropertiesPanel fmt sel ct dur)
     \<and> (sel_type sel = Some audio \<and> data_volume d = Some (Fin 0) \<longrightarrow>
           (\<exists>p. PropertiesPanel fmt sel ct dur = Card p
              \<and> map_of (specific_data p) ''Volume:'' = Some ''0%'')
           \<and> (\<exists>p. PropertiesPanel fmt (sel\<lparr>sel_data := Some (d\<lparr>data_volume := None\<rparr>)\<rparr>) ct dur = Card p
              \<and> map_of (specific_data p) ''Volume:'' = Some ''N/A''))"
  using assms
  by (auto simp: PropertiesPanel_def elementSpecificData_def score_or_def js_truthy_def
      data_field_def js_toString_def int_digits_def nat_digits.simps [of 0] digit_char_def)

theorem zero_score_and_zero_volume_witness:
  "(\<exists>p. PropertiesPanel no_fmt sel_score_0 (Fin 0) (Fin 154) = Card p
        \<and> map_of (specific_data p) ''Score:'' = Some ''N/A'')
   \<and> PropertiesPanel no_fmt (sel_score_0\<lparr>sel_data := Some no_data\<rparr>) (Fin 0) (Fin 154)
        = PropertiesPanel no_fmt sel_score_0 (Fin 0) (Fin 154)
   \<and> (\<exists>p. PropertiesPanel no_fmt sel_volume_0 (Fin 0) (Fin 154) = Card p
        \<and> map_of (specific_data p) ''Volume:'' = Some ''0%'')
   \<and> (\<exists>p. PropertiesPanel no_fmt (sel_volume_0\<lparr>sel_data := Some no_data\<rparr>) (Fin 0) (Fin 154) = Card p
        \<and> map_of (specific_data p) ''Volume:'' = Some ''N/A'')"
  using zero_score_and_zero_volume [of sel_score_0 "no_data\<lparr>data_score := Some (Fin 0)\<rparr>" no_fmt "Fin 0" "Fin 154"]
    zero_score_and_zero_volume [of sel_volume_0 "no_data\<lparr>data_volume := Some (Fin 0)\<rparr>" no_fmt "Fin 0" "Fin 154"]
  by (simp add: sel_score_0_def sel_volume_0_def sel_n2_def no_data_def)

end
